theory Spec2Isabelle
  imports Main "HOL-Library.Word"
begin

section \<open>The article handlers of package rest (internal/rest/article.go)\<close>

text \<open>
  The file holds four HTTP handlers over an injected \<open>ArticleService\<close>, the error
  translator \<open>ReturnErr\<close> and the status classifier \<open>getStatusCode\<close>. The handlers
  mutate a \<open>*fiber.Ctx\<close> and call the service; both are threaded through the model as
  explicit state. What the file takes from outside (strconv, net/http, fiber, logrus,
  encoding/json, package domain) is modelled first, each part as far as the handlers
  use it.
\<close>

subsection \<open>Integers, strconv.Atoi, net/http status constants\<close>

text \<open>
  Go's \<open>int\<close> is 64 bits wide on the platforms the service is built for
  (\<open>intSize\<close> of strconv). A value of type \<open>int\<close> is kept as a mathematical integer;
  \<open>Atoi\<close> is the only producer of one here and checks the range itself. \<open>int64\<close> is
  a 64-bit word, and the conversion \<open>int64(num)\<close> keeps the low 64 bits.
\<close>

type_synonym int64 = "64 word"

definition intSize :: nat where
  "intSize = 64"

definition int64 :: "int \<Rightarrow> int64" where
  "int64 n = word_of_int n"

datatype NumError = ErrSyntax | ErrRange

definition digit :: "char \<Rightarrow> nat option" where
  "digit ch = (let n = (of_char ch :: nat) in if 48 \<le> n \<and> n \<le> 57 then Some (n - 48) else None)"

fun digits :: "string \<Rightarrow> nat \<Rightarrow> nat option" where
  "digits [] acc = Some acc"
| "digits (ch # cs) acc =
     (case digit ch of None \<Rightarrow> None | Some v \<Rightarrow> digits cs (acc * 10 + v))"

text \<open>
  \<open>strconv.Atoi(s)\<close>, which is \<open>ParseInt(s, 10, 0)\<close>: an optional sign, then one or
  more decimal digits and nothing else. It returns the value and a nil error, or a
  \<open>*NumError\<close>: \<open>ErrSyntax\<close> with value 0, or \<open>ErrRange\<close> with the nearest
  representable value when the number does not fit \<open>intSize\<close> bits.
\<close>

definition Atoi :: "string \<Rightarrow> int \<times> NumError option" where
  "Atoi s =
     (let neg = (s \<noteq> [] \<and> hd s = CHR ''-'');
          ds = (if s \<noteq> [] \<and> (hd s = CHR ''+'' \<or> hd s = CHR ''-'') then tl s else s);
          cutoff = (2 :: nat) ^ (intSize - 1)
      in if ds = [] then (0, Some ErrSyntax)
         else case digits ds 0 of
                None \<Rightarrow> (0, Some ErrSyntax)
              | Some un \<Rightarrow>
                  if \<not> neg \<and> cutoff \<le> un then (int cutoff - 1, Some ErrRange)
                  else if neg \<and> cutoff < un then (- int cutoff, Some ErrRange)
                  else (if neg then - int un else int un, None))"

definition StatusOK :: int where
  "StatusOK = 200"

definition StatusNotFound :: int where
  "StatusNotFound = 404"

definition StatusConflict :: int where
  "StatusConflict = 409"

definition StatusInternalServerError :: int where
  "StatusInternalServerError = 500"

subsection \<open>Errors and package domain\<close>

text \<open>
  A Go \<open>error\<close> value is nil (\<open>None\<close>) or one of: the three sentinel errors of package
  domain that this file names, which \<open>switch err\<close> compares by identity, or any other
  error, kept with the text its \<open>Error()\<close> method returns.

  Package domain is not part of this file. What the handlers need of it is taken as
  a parameter: the texts of the three sentinels, the zero value of \<open>domain.Article\<close>
  (what \<open>var article domain.Article\<close> holds) and how an \<open>Article\<close> marshals to JSON.
  The article type itself stays a type variable.
\<close>

datatype error = ErrInternalServerError | ErrNotFound | ErrConflict | OtherError string

datatype json = JNull | JNum int | JStr string | JArr "json list" | JObj "(string \<times> json) list"

record 'a domain =
  InternalServerErrorText :: string
  NotFoundText :: string
  ConflictText :: string
  zeroArticle :: 'a
  marshalArticle :: "'a \<Rightarrow> error + json"

fun Error :: "'a domain \<Rightarrow> error \<Rightarrow> string" where
  "Error d ErrInternalServerError = InternalServerErrorText d"
| "Error d ErrNotFound = NotFoundText d"
| "Error d ErrConflict = ConflictText d"
| "Error d (OtherError s) = s"

subsection \<open>JSON encoding of the values the handlers write\<close>

text \<open>
  A response body is kept as the JSON document it holds; its rendering to bytes is
  the encoder's. \<open>has_field k j\<close> says that \<open>j\<close> is an object with a member \<open>k\<close>.
\<close>

fun has_field :: "string \<Rightarrow> json \<Rightarrow> bool" where
  "has_field k (JObj kvs) = (map_of kvs k \<noteq> None)"
| "has_field k JNull = False"
| "has_field k (JNum n) = False"
| "has_field k (JStr s) = False"
| "has_field k (JArr js) = False"

text \<open>\<open>type errRep struct { Message string `json:"message,omitempty"` }\<close>\<close>

record errRep =
  Message :: string

text \<open>
  The values handed to \<open>c.JSON\<close> in this file, by their dynamic type: an \<open>errRep\<close>,
  a \<open>[]domain.Article\<close> (\<open>None\<close> is the nil slice), a \<open>domain.Article\<close> and an
  untyped constant, which becomes an \<open>int\<close>.
\<close>

datatype 'a data =
    ErrRepData errRep
  | ArticlesData "'a list option"
  | ArticleData 'a
  | IntData int

fun marshalList :: "('a \<Rightarrow> error + json) \<Rightarrow> 'a list \<Rightarrow> error + json list" where
  "marshalList m [] = Inr []"
| "marshalList m (x # xs) =
     (case m x of
        Inl e \<Rightarrow> Inl e
      | Inr j \<Rightarrow> (case marshalList m xs of Inl e \<Rightarrow> Inl e | Inr js \<Rightarrow> Inr (j # js)))"

text \<open>
  A Go string is a sequence of bytes, and the encoder writes a string value as
  UTF-8: going through the bytes, it copies each well-formed encoding of a code
  point and writes U+FFFD (the bytes EF BF BD) for every byte that does not start
  one. \<open>runeLen s\<close> is the width of the encoding at the head of \<open>s\<close>, as
  \<open>utf8.DecodeRuneInString\<close> finds it, and 0 where that reports an error of width 1.
  \<open>coerceUTF8 k s\<close> is the encoder's loop with \<open>k\<close> bytes of the current encoding
  still to copy. \<open>ValidString\<close> is \<open>utf8.ValidString\<close>.
\<close>

definition inRange :: "char \<Rightarrow> nat \<Rightarrow> nat \<Rightarrow> bool" where
  "inRange ch lo hi = (lo \<le> of_char ch \<and> (of_char ch :: nat) \<le> hi)"

definition runeLen :: "string \<Rightarrow> nat" where
  "runeLen s =
     (case s of
        [] \<Rightarrow> 0
      | b0 # r \<Rightarrow>
          (let x = (of_char b0 :: nat)
           in if x < 0x80 then 1
              else if x < 0xC2 then 0
              else if x < 0xE0 then
                (case r of
                   b1 # _ \<Rightarrow> if inRange b1 0x80 0xBF then 2 else 0
                 | _ \<Rightarrow> 0)
              else if x < 0xF0 then
                (case r of
                   b1 # b2 # _ \<Rightarrow>
                     if inRange b1 (if x = 0xE0 then 0xA0 else 0x80) (if x = 0xED then 0x9F else 0xBF)
                        \<and> inRange b2 0x80 0xBF
                     then 3 else 0
                 | _ \<Rightarrow> 0)
              else if x < 0xF5 then
                (case r of
                   b1 # b2 # b3 # _ \<Rightarrow>
                     if inRange b1 (if x = 0xF0 then 0x90 else 0x80) (if x = 0xF4 then 0x8F else 0xBF)
                        \<and> inRange b2 0x80 0xBF \<and> inRange b3 0x80 0xBF
                     then 4 else 0
                 | _ \<Rightarrow> 0)
              else 0))"

definition RuneError :: string where
  "RuneError = [CHR 0xEF, CHR 0xBF, CHR 0xBD]"

fun coerceUTF8 :: "nat \<Rightarrow> string \<Rightarrow> string" where
  "coerceUTF8 k [] = []"
| "coerceUTF8 k (b # bs) =
     (if 0 < k then b # coerceUTF8 (k - 1) bs
      else if runeLen (b # bs) = 0 then RuneError @ coerceUTF8 0 bs
      else b # coerceUTF8 (runeLen (b # bs) - 1) bs)"

definition toValidUTF8 :: "string \<Rightarrow> string" where
  "toValidUTF8 s = coerceUTF8 0 s"



text \<open>
  \<open>json.Marshal\<close>, fiber's default \<open>JSONEncoder\<close>. A struct field tagged
  \<open>omitempty\<close> is left out when it holds the empty string; a string is written with
  its invalid bytes replaced; a nil slice is \<open>null\<close>.
\<close>

fun Marshal :: "'a domain \<Rightarrow> 'a data \<Rightarrow> error + json" where
  "Marshal d (ErrRepData r) =
     Inr (JObj (if Message r = [] then [] else [(''message'', JStr (toValidUTF8 (Message r)))]))"
| "Marshal d (ArticlesData None) = Inr JNull"
| "Marshal d (ArticlesData (Some xs)) =
     (case marshalList (marshalArticle d) xs of Inl e \<Rightarrow> Inl e | Inr js \<Rightarrow> Inr (JArr js))"
| "Marshal d (ArticleData a) = marshalArticle d a"
| "Marshal d (IntData n) = Inr (JNum n)"

subsection \<open>fiber.Ctx\<close>

text \<open>
  The request side of a \<open>*fiber.Ctx\<close> (query and route parameters) and the response
  it builds up: status code, Content-Type, other header fields and body. A fresh
  response has status 200 and no body.
\<close>

record Ctx =
  queries :: "string \<rightharpoonup> string"
  params :: "string \<rightharpoonup> string"
  statusCode :: int
  contentType :: string
  headers :: "string \<rightharpoonup> string"
  body :: "json option"

definition MIMEApplicationJSON :: string where
  "MIMEApplicationJSON = ''application/json''"

definition AcquireCtx :: "(string \<rightharpoonup> string) \<Rightarrow> (string \<rightharpoonup> string) \<Rightarrow> Ctx" where
  "AcquireCtx q p =
     \<lparr>queries = q, params = p, statusCode = StatusOK, contentType = [],
      headers = Map.empty, body = None\<rparr>"

text \<open>\<open>c.Query(key)\<close> and \<open>c.Params(key)\<close>: the value, or the empty string when absent.\<close>

definition Query :: "Ctx \<Rightarrow> string \<Rightarrow> string" where
  "Query c key = (case queries c key of None \<Rightarrow> [] | Some v \<Rightarrow> v)"

definition Params :: "Ctx \<Rightarrow> string \<Rightarrow> string" where
  "Params c key = (case params c key of None \<Rightarrow> [] | Some v \<Rightarrow> v)"

text \<open>
  \<open>c.Set(key, val)\<close> sets a response header field through fasthttp's
  \<open>Response.Header.Set\<close>, which stores the value with every carriage return and
  line feed replaced by a space (\<open>removeNewLines\<close>).
\<close>

definition removeNewLines :: "string \<Rightarrow> string" where
  "removeNewLines raw =
     map (\<lambda>ch. if ch = CHR 0x0D \<or> ch = CHR 0x0A then CHR '' '' else ch) raw"

definition Set :: "Ctx \<Rightarrow> string \<Rightarrow> string \<Rightarrow> Ctx" where
  "Set c key val = c\<lparr>headers := (headers c)(key \<mapsto> removeNewLines val)\<rparr>"

text \<open>
  \<open>func (c *Ctx) JSON(data interface{}, ctype ...string) error\<close>: encode \<open>data\<close>; on
  an encoding error return it and leave the response alone; otherwise the encoding
  becomes the body, the Content-Type becomes \<open>ctype[0]\<close> when one is given and
  \<open>application/json\<close> when none is, and nil is returned. The status code is not
  touched.
\<close>

definition JSON :: "'a domain \<Rightarrow> Ctx \<Rightarrow> 'a data \<Rightarrow> string list \<Rightarrow> error option \<times> Ctx" where
  "JSON d c dat ctype =
     (case Marshal d dat of
        Inl err \<Rightarrow> (Some err, c)
      | Inr raw \<Rightarrow>
          (None, c\<lparr>body := Some raw,
                   contentType := (case ctype of [] \<Rightarrow> MIMEApplicationJSON | ct # _ \<Rightarrow> ct)\<rparr>))"

subsection \<open>The service and the handler\<close>

text \<open>
  \<open>ArticleService\<close> is an interface: its implementation is the caller's. A method
  takes the service's state \<open>'s\<close> and returns its results with the new state. \<open>Store\<close>
  and \<open>Update\<close> receive a pointer to an article and may write through it, so they
  return the article as they leave it. The \<open>context.Context\<close> argument is only
  forwarded and is left out.
\<close>

record ('a, 's) ArticleService =
  Service_Fetch :: "string \<Rightarrow> int64 \<Rightarrow> 's \<Rightarrow> ('a list option \<times> string \<times> error option) \<times> 's"
  Service_GetByID :: "int64 \<Rightarrow> 's \<Rightarrow> ('a \<times> error option) \<times> 's"
  Service_Update :: "'a \<Rightarrow> 's \<Rightarrow> ('a \<times> error option) \<times> 's"
  Service_GetByTitle :: "string \<Rightarrow> 's \<Rightarrow> ('a \<times> error option) \<times> 's"
  Service_Store :: "'a \<Rightarrow> 's \<Rightarrow> ('a \<times> error option) \<times> 's"
  Service_Delete :: "int64 \<Rightarrow> 's \<Rightarrow> error option \<times> 's"

record ('a, 's) ArticleHandler =
  Service :: "('a, 's) ArticleService"

definition defaultNum :: int where
  "defaultNum = 10"

text \<open>
  \<open>ReturnErr\<close>: \<open>rep\<close> starts as nil; for a non-nil \<open>er\<close> it becomes what
  \<open>c.JSON(errRep{er.Error()})\<close> returns.
\<close>

definition ReturnErr :: "'a domain \<Rightarrow> Ctx \<Rightarrow> error option \<Rightarrow> error option \<times> Ctx" where
  "ReturnErr d c er =
     (case er of
        None \<Rightarrow> (None, c)
      | Some e \<Rightarrow> JSON d c (ErrRepData \<lparr>Message = Error d e\<rparr>) [])"

text \<open>A handler returns its \<open>error\<close>, the context as it leaves it and the service's state.\<close>

definition FetchArticle ::
  "'a domain \<Rightarrow> ('a, 's) ArticleHandler \<Rightarrow> Ctx \<Rightarrow> 's \<Rightarrow> error option \<times> Ctx \<times> 's" where
  "FetchArticle d a c s =
     (let numS = Query c ''num'';
          (num0, err) = Atoi numS;
          num = (if err \<noteq> None \<or> num0 = 0 then defaultNum else num0);
          cursor = Query c ''cursor'';
          ((listAr, nextCursor, err), s') = Service_Fetch (Service a) cursor (int64 num) s;
          (rep, c1) = ReturnErr d c err
      in if rep \<noteq> None then (rep, c1, s')
         else let c2 = Set c1 ''X-Cursor'' nextCursor;
                  (r, c3) = JSON d c2 (ArticlesData listAr) []
              in (r, c3, s'))"

definition GetByID ::
  "'a domain \<Rightarrow> ('a, 's) ArticleHandler \<Rightarrow> Ctx \<Rightarrow> 's \<Rightarrow> error option \<times> Ctx \<times> 's" where
  "GetByID d a c s =
     (let (idP, err) = Atoi (Params c ''id'')
      in if err \<noteq> None
         then (let (r, c') = JSON d c (IntData StatusNotFound) [Error d ErrNotFound]
               in (r, c', s))
         else let id = int64 idP;
                  ((art, err), s') = Service_GetByID (Service a) id s;
                  (rep, c1) = ReturnErr d c err
              in if rep \<noteq> None then (rep, c1, s')
                 else let (r, c2) = JSON d c1 (ArticleData art) [] in (r, c2, s'))"

text \<open>\<open>Store\<close>: the binding and validation of the request body are commented out.\<close>

definition Store ::
  "'a domain \<Rightarrow> ('a, 's) ArticleHandler \<Rightarrow> Ctx \<Rightarrow> 's \<Rightarrow> error option \<times> Ctx \<times> 's" where
  "Store d a c s =
     (let article = zeroArticle d;
          ((article, err), s') = Service_Store (Service a) article s;
          (rep, c1) = ReturnErr d c err
      in if rep \<noteq> None then (rep, c1, s')
         else let (r, c2) = JSON d c1 (ArticleData article) [] in (r, c2, s'))"

definition Delete ::
  "'a domain \<Rightarrow> ('a, 's) ArticleHandler \<Rightarrow> Ctx \<Rightarrow> 's \<Rightarrow> error option \<times> Ctx \<times> 's" where
  "Delete d a c s =
     (let (idP, err) = Atoi (Params c ''id'')
      in if err \<noteq> None
         then (let (r, c') = JSON d c (IntData StatusNotFound) [Error d ErrNotFound]
               in (r, c', s))
         else let id = int64 idP;
                  (err, s') = Service_Delete (Service a) id s;
                  (rep, c1) = ReturnErr d c err
              in if rep \<noteq> None then (rep, c1, s') else (None, c1, s'))"

subsection \<open>The status classifier\<close>

text \<open>
  \<open>logrus.Error(err)\<close> writes one entry to the log, kept here as the list of the
  errors logged so far. \<open>getStatusCode\<close> returns the code and the log.
\<close>

type_synonym logrus = "error list"

definition logrus_Error :: "logrus \<Rightarrow> error \<Rightarrow> logrus" where
  "logrus_Error lg e = lg @ [e]"

definition getStatusCode :: "error option \<Rightarrow> logrus \<Rightarrow> int \<times> logrus" where
  "getStatusCode err lg =
     (case err of
        None \<Rightarrow> (StatusOK, lg)
      | Some e \<Rightarrow>
          (let lg' = logrus_Error lg e
           in (case e of
                 ErrInternalServerError \<Rightarrow> (StatusInternalServerError, lg')
               | ErrNotFound \<Rightarrow> (StatusNotFound, lg')
               | ErrConflict \<Rightarrow> (StatusConflict, lg')
               | OtherError _ \<Rightarrow> (StatusInternalServerError, lg'))))"

subsection \<open>A recording service\<close>

text \<open>
  To speak of which calls a handler makes, a service is wrapped into one that also
  keeps the list of the calls it received, in order, and otherwise behaves as the
  service it wraps.
\<close>

datatype 'a call =
    FetchCall string int64
  | GetByIDCall int64
  | UpdateCall 'a
  | GetByTitleCall string
  | StoreCall 'a
  | DeleteCall int64

definition spy :: "('a, 's) ArticleService \<Rightarrow> ('a, 's \<times> 'a call list) ArticleService" where
  "spy svc =
     \<lparr>Service_Fetch = (\<lambda>cursor num (s, lg).
        (let (r, s') = Service_Fetch svc cursor num s in (r, (s', lg @ [FetchCall cursor num])))),
      Service_GetByID = (\<lambda>id (s, lg).
        (let (r, s') = Service_GetByID svc id s in (r, (s', lg @ [GetByIDCall id])))),
      Service_Update = (\<lambda>ar (s, lg).
        (let (r, s') = Service_Update svc ar s in (r, (s', lg @ [UpdateCall ar])))),
      Service_GetByTitle = (\<lambda>title (s, lg).
        (let (r, s') = Service_GetByTitle svc title s in (r, (s', lg @ [GetByTitleCall title])))),
      Service_Store = (\<lambda>ar (s, lg).
        (let (r, s') = Service_Store svc ar s in (r, (s', lg @ [StoreCall ar])))),
      Service_Delete = (\<lambda>id (s, lg).
        (let (r, s') = Service_Delete svc id s in (r, (s', lg @ [DeleteCall id]))))\<rparr>"

definition returned :: "error option \<times> Ctx \<times> 's \<Rightarrow> error option" where
  "returned r = fst r"

definition response :: "error option \<times> Ctx \<times> 's \<Rightarrow> Ctx" where
  "response r = fst (snd r)"

definition calls :: "error option \<times> Ctx \<times> ('s \<times> 'a call list) \<Rightarrow> 'a call list" where
  "calls r = snd (snd (snd r))"

subsection \<open>Sample collaborators\<close>

text \<open>
  Concrete values to run the handlers on: a domain whose articles are pairs of an
  identifier and a title, and a service that returns canned answers, as a generated
  mock does.
\<close>

definition sampleDomain :: "(int64 \<times> string) domain" where
  "sampleDomain =
     \<lparr>InternalServerErrorText = ''internal server error'',
      NotFoundText = ''not found'',
      ConflictText = ''conflict'',
      zeroArticle = (0, []),
      marshalArticle =
        (\<lambda>(i, t). Inr (JObj [(''id'', JNum (sint i)), (''title'', JStr (toValidUTF8 t))]))\<rparr>"

definition mock ::
  "'a list option \<times> string \<times> error option \<Rightarrow> 'a \<times> error option \<Rightarrow> ('a \<Rightarrow> 'a \<times> error option) \<Rightarrow>
   error option \<Rightarrow> ('a, unit) ArticleService" where
  "mock fetched got stored deleted =
     \<lparr>Service_Fetch = (\<lambda>cursor num s. (fetched, s)),
      Service_GetByID = (\<lambda>id s. (got, s)),
      Service_Update = (\<lambda>ar s. (stored ar, s)),
      Service_GetByTitle = (\<lambda>title s. (got, s)),
      Service_Store = (\<lambda>ar s. (stored ar, s)),
      Service_Delete = (\<lambda>id s. (deleted, s))\<rparr>"

text \<open>
  \<open>okService\<close> succeeds in every method and assigns the identifier 1 on \<open>Store\<close>;
  \<open>failingService e\<close> returns the error \<open>e\<close> from every method.
\<close>

definition okService :: "(int64 \<times> string, unit) ArticleService" where
  "okService =
     mock (Some [(1, ''a'')], ''cursor123'', None) ((42, ''a''), None) (\<lambda>(i, t). ((1, t), None)) None"

definition failingService :: "error \<Rightarrow> (int64 \<times> string, unit) ArticleService" where
  "failingService e =
     mock (None, ''next'', Some e) ((0, []), Some e) (\<lambda>ar. (ar, Some e)) (Some e)"

section \<open>Properties\<close>

subsection \<open>Parsing and the error translator\<close>

lemma Atoi_range: "Atoi s = (v, None) \<Longrightarrow> - (2 ^ 63) \<le> v \<and> v < 2 ^ 63"
  by (auto simp: Atoi_def Let_def intSize_def split: if_splits option.splits)

lemma int64_sint: "- (2 ^ 63) \<le> v \<Longrightarrow> v < 2 ^ 63 \<Longrightarrow> sint (int64 v) = v"
  unfolding int64_def
  by (simp add: sint_sbintrunc' signed_take_bit_int_eq_self)

lemma Atoi_7: "Atoi ''7'' = (7, None)"
  by (simp add: Atoi_def Let_def intSize_def digit_def)

lemma Atoi_xyz: "Atoi ''xyz'' = (0, Some ErrSyntax)"
  by (simp add: Atoi_def Let_def intSize_def digit_def)



lemma removeNewLines_id: "CHR 0x0D \<notin> set s \<Longrightarrow> CHR 0x0A \<notin> set s \<Longrightarrow> removeNewLines s = s"
  by (induction s) (auto simp: removeNewLines_def)

lemma ReturnErr_nil: "ReturnErr d c None = (None, c)"
  by (simp add: ReturnErr_def)

lemma ReturnErr_non_nil:
  "ReturnErr d c (Some e) =
     (None, c\<lparr>body := Some (JObj (if Error d e = [] then []
                                      else [(''message'', JStr (toValidUTF8 (Error d e)))])),
              contentType := MIMEApplicationJSON\<rparr>)"
  by (simp add: ReturnErr_def JSON_def)

lemma ReturnErr_returns_nil: "fst (ReturnErr d c er) = None"
  by (cases er) (simp_all add: ReturnErr_nil ReturnErr_non_nil)

lemma ReturnErr_headers: "headers (snd (ReturnErr d c er)) = headers c"
  by (cases er) (simp_all add: ReturnErr_nil ReturnErr_non_nil)

lemma JSON_headers: "headers (snd (JSON d c dat ct)) = headers c"
  by (simp add: JSON_def split: sum.splits)

subsection \<open>List\<close>

lemma FetchArticle_calls:
  "calls (FetchArticle d \<lparr>Service = spy svc\<rparr> c (s, [])) =
     [FetchCall (Query c ''cursor'')
        (int64 (if snd (Atoi (Query c ''num'')) \<noteq> None \<or> fst (Atoi (Query c ''num'')) = 0
                then defaultNum else fst (Atoi (Query c ''num''))))]"
  by (simp add: FetchArticle_def calls_def spy_def Let_def case_prod_beta ReturnErr_returns_nil)

text \<open>
  C1. \<open>FetchArticle\<close> calls \<open>Fetch\<close> once. When \<open>num\<close> does not parse (syntax or
  range) or parses to zero, the page size handed over is 10; otherwise it is the
  parsed value converted to \<open>int64\<close>, and the conversion does not change it: read
  back as a signed number it is the parsed value, negative ones included.
\<close>

theorem FetchArticle_page_size:
  "calls (FetchArticle d \<lparr>Service = spy svc\<rparr> c (s, [])) =
     [FetchCall (Query c ''cursor'')
        (if snd (Atoi (Query c ''num'')) \<noteq> None \<or> fst (Atoi (Query c ''num'')) = 0 then 10
         else int64 (fst (Atoi (Query c ''num''))))]
   \<and> (snd (Atoi (Query c ''num'')) = None \<longrightarrow>
        sint (int64 (fst (Atoi (Query c ''num'')))) = fst (Atoi (Query c ''num'')))"
proof -
  have "sint (int64 (fst (Atoi (Query c ''num'')))) = fst (Atoi (Query c ''num''))"
    if "snd (Atoi (Query c ''num'')) = None"
  proof -
    from that have "Atoi (Query c ''num'') = (fst (Atoi (Query c ''num'')), None)"
      by (metis prod.collapse)
    then show ?thesis
      using Atoi_range int64_sint by blast
  qed
  moreover have "int64 defaultNum = 10"
    by (simp add: int64_def defaultNum_def)
  ultimately show ?thesis
    by (simp add: FetchArticle_calls)
qed

theorem FetchArticle_page_size_witness:
  "snd (Atoi ''-5'') = None
   \<and> calls (FetchArticle sampleDomain \<lparr>Service = spy okService\<rparr>
        (AcquireCtx [''num'' \<mapsto> ''-5'', ''cursor'' \<mapsto> ''abc''] Map.empty) ((), []))
     = [FetchCall ''abc'' (- 5)]
   \<and> sint (- 5 :: int64) = - 5"
  using FetchArticle_page_size [of sampleDomain okService
      "AcquireCtx [''num'' \<mapsto> ''-5'', ''cursor'' \<mapsto> ''abc''] Map.empty" "()"]
  by (simp add: Query_def AcquireCtx_def Atoi_def intSize_def digit_def int64_def)

lemma FetchArticle_headers:
  "headers (response (FetchArticle d a c s)) =
     (headers c)(''X-Cursor'' \<mapsto>
        removeNewLines (fst (snd (fst (Service_Fetch (Service a) (Query c ''cursor'')
          (int64 (if snd (Atoi (Query c ''num'')) \<noteq> None \<or> fst (Atoi (Query c ''num'')) = 0
                  then defaultNum else fst (Atoi (Query c ''num'')))) s)))))"
  by (simp add: FetchArticle_def response_def Let_def case_prod_beta ReturnErr_returns_nil
      JSON_headers Set_def ReturnErr_headers)

lemma spy_Fetch_result:
  "fst (Service_Fetch (spy svc) cursor num (s, lg)) = fst (Service_Fetch svc cursor num s)"
  by (simp add: spy_def case_prod_beta)

text \<open>
  C2, as stated, fails: the header value goes through \<open>c.Set\<close>, which replaces
  carriage returns and line feeds. For a service that returns the cursor
  \<open>a\r\nb\<close> with a nil error, the header holds \<open>a\<close>, two spaces and \<open>b\<close>.
\<close>

theorem cursor_round_trip_counterexample:
  "headers (response (FetchArticle sampleDomain
      \<lparr>Service = mock (Some [], [CHR ''a'', CHR 0x0D, CHR 0x0A, CHR ''b''], None)
                      ((0, []), None) (\<lambda>ar. (ar, None)) None\<rparr>
      (AcquireCtx Map.empty Map.empty) ())) ''X-Cursor'' = Some ''a  b''
   \<and> Some ''a  b'' \<noteq> Some [CHR ''a'', CHR 0x0D, CHR 0x0A, CHR ''b'']"
  by (simp add: FetchArticle_headers AcquireCtx_def mock_def removeNewLines_def)

text \<open>
  C2, amended. The one \<open>Fetch\<close> call that \<open>FetchArticle\<close> makes carries the \<open>cursor\<close>
  query parameter as it came (the empty string when absent), and when the service
  answers that call with a nil error, the \<open>X-Cursor\<close> response header holds the
  \<open>nextCursor\<close> of the answer with each carriage return and line feed replaced by a
  space: byte for byte the \<open>nextCursor\<close> itself when it holds neither.
\<close>

theorem FetchArticle_cursor_round_trip:
  assumes "calls (FetchArticle d \<lparr>Service = spy svc\<rparr> c (s, [])) = [FetchCall cursor num]"
    and "Service_Fetch svc cursor num s = ((listAr, nextCursor, None), s')"
  shows "cursor = Query c ''cursor''
    \<and> headers (response (FetchArticle d \<lparr>Service = spy svc\<rparr> c (s, []))) ''X-Cursor''
        = Some (removeNewLines nextCursor)
    \<and> (CHR 0x0D \<notin> set nextCursor \<longrightarrow> CHR 0x0A \<notin> set nextCursor \<longrightarrow>
        headers (response (FetchArticle d \<lparr>Service = spy svc\<rparr> c (s, []))) ''X-Cursor''
          = Some nextCursor)"
  using assms
  by (simp add: FetchArticle_calls FetchArticle_headers spy_Fetch_result removeNewLines_id)

theorem FetchArticle_cursor_round_trip_witness:
  "calls (FetchArticle sampleDomain \<lparr>Service = spy okService\<rparr>
        (AcquireCtx [''num'' \<mapsto> ''abc'', ''cursor'' \<mapsto> ''abc''] Map.empty) ((), []))
     = [FetchCall ''abc'' 10]
   \<and> Service_Fetch okService ''abc'' 10 () = ((Some [(1, ''a'')], ''cursor123'', None), ())
   \<and> CHR 0x0D \<notin> set ''cursor123'' \<and> CHR 0x0A \<notin> set ''cursor123''
   \<and> ''abc'' = Query (AcquireCtx [''num'' \<mapsto> ''abc'', ''cursor'' \<mapsto> ''abc''] Map.empty) ''cursor''
   \<and> headers (response (FetchArticle sampleDomain \<lparr>Service = spy okService\<rparr>
        (AcquireCtx [''num'' \<mapsto> ''abc'', ''cursor'' \<mapsto> ''abc''] Map.empty) ((), []))) ''X-Cursor''
     = Some ''cursor123''"
proof -
  have h1: "calls (FetchArticle sampleDomain \<lparr>Service = spy okService\<rparr>
        (AcquireCtx [''num'' \<mapsto> ''abc'', ''cursor'' \<mapsto> ''abc''] Map.empty) ((), []))
     = [FetchCall ''abc'' 10]"
    by (simp add: FetchArticle_calls Query_def AcquireCtx_def Atoi_def intSize_def digit_def
        int64_def defaultNum_def)
  have h2: "Service_Fetch okService ''abc'' 10 () = ((Some [(1, ''a'')], ''cursor123'', None), ())"
    by (simp add: okService_def mock_def)
  show ?thesis
    using h1 h2 FetchArticle_cursor_round_trip [OF h1 h2] by (simp add: removeNewLines_def)
qed

text \<open>
  C8 (the code departs from it). \<open>ReturnErr\<close> returns what \<open>c.JSON\<close> returns, which
  is nil once the error body is encoded (\<open>ReturnErr_returns_nil\<close>), so the guard
  \<open>rep != nil\<close> in \<open>FetchArticle\<close> never fires: after an error from \<open>Fetch\<close> the
  handler still sets \<open>X-Cursor\<close> to the cursor the service returned beside the error
  (\<open>FetchArticle_headers\<close>) and replaces the error body by the encoding of the list.
  Evaluated for a service that fails with "boom", returning the cursor "next" or the
  empty cursor:
\<close>

theorem FetchArticle_error_sets_cursor_header:
  "FetchArticle sampleDomain \<lparr>Service = failingService (OtherError ''boom'')\<rparr>
      (AcquireCtx Map.empty Map.empty) ()
     = (None,
        \<lparr>queries = Map.empty, params = Map.empty, statusCode = 200,
         contentType = ''application/json'', headers = [''X-Cursor'' \<mapsto> ''next''],
         body = Some JNull\<rparr>,
        ())
   \<and> headers (response (FetchArticle sampleDomain
        \<lparr>Service = mock (None, [], Some (OtherError ''boom'')) ((0, []), None) (\<lambda>ar. (ar, None)) None\<rparr>
        (AcquireCtx Map.empty Map.empty) ())) ''X-Cursor'' = Some []"
  by (simp add: FetchArticle_def response_def Query_def AcquireCtx_def Atoi_def intSize_def
      failingService_def mock_def ReturnErr_non_nil Set_def JSON_def MIMEApplicationJSON_def
      StatusOK_def removeNewLines_def)

theorem FetchArticle_error_sets_cursor_header_witness:
  "returned (FetchArticle sampleDomain \<lparr>Service = failingService (OtherError ''boom'')\<rparr>
      (AcquireCtx Map.empty Map.empty) ()) = None
   \<and> headers (response (FetchArticle sampleDomain \<lparr>Service = failingService (OtherError ''boom'')\<rparr>
      (AcquireCtx Map.empty Map.empty) ())) ''X-Cursor'' = Some ''next''
   \<and> body (response (FetchArticle sampleDomain \<lparr>Service = failingService (OtherError ''boom'')\<rparr>
      (AcquireCtx Map.empty Map.empty) ())) = Some JNull"
  using FetchArticle_error_sets_cursor_header
  by (simp add: returned_def response_def)

subsection \<open>Success responses\<close>

text \<open>
  C4. For a nil error \<open>ReturnErr\<close> returns nil and leaves the response as it is, and
  each operation whose service call returns a nil error ends in its success
  response: \<open>FetchArticle\<close> in \<open>c.JSON(listAr)\<close> on the response with \<open>X-Cursor\<close> set,
  \<open>GetByID\<close> and \<open>Store\<close> in \<open>c.JSON\<close> of the article, \<open>Delete\<close> in nil with nothing
  written.
\<close>

theorem nil_error_success_response:
  "ReturnErr d c None = (None, c)
   \<and> (Service_Fetch (Service a) (Query c ''cursor'')
         (int64 (if snd (Atoi (Query c ''num'')) \<noteq> None \<or> fst (Atoi (Query c ''num'')) = 0
                 then defaultNum else fst (Atoi (Query c ''num'')))) s
         = ((listAr, nextCursor, None), s1) \<longrightarrow>
       FetchArticle d a c s =
         (fst (JSON d (Set c ''X-Cursor'' nextCursor) (ArticlesData listAr) []),
          snd (JSON d (Set c ''X-Cursor'' nextCursor) (ArticlesData listAr) []), s1))
   \<and> (Atoi (Params c ''id'') = (idP, None) \<longrightarrow>
       Service_GetByID (Service a) (int64 idP) s = ((art, None), s2) \<longrightarrow>
       GetByID d a c s = (fst (JSON d c (ArticleData art) []), snd (JSON d c (ArticleData art) []), s2))
   \<and> (Service_Store (Service a) (zeroArticle d) s = ((stored, None), s3) \<longrightarrow>
       Store d a c s = (fst (JSON d c (ArticleData stored) []), snd (JSON d c (ArticleData stored) []), s3))
   \<and> (Atoi (Params c ''id'') = (idP, None) \<longrightarrow>
       Service_Delete (Service a) (int64 idP) s = (None, s4) \<longrightarrow>
       Delete d a c s = (None, c, s4))"
  by (simp add: FetchArticle_def GetByID_def Store_def Delete_def Let_def case_prod_beta
      ReturnErr_nil)

theorem nil_error_success_response_witness:
  "Service_Fetch okService ''abc'' 10 () = ((Some [(1, ''a'')], ''cursor123'', None), ())
   \<and> Atoi ''7'' = (7, None)
   \<and> Service_GetByID okService 7 () = (((42, ''a''), None), ())
   \<and> Service_Store okService (0, []) () = (((1, []), None), ())
   \<and> Service_Delete okService 7 () = (None, ())
   \<and> FetchArticle sampleDomain \<lparr>Service = okService\<rparr>
        (AcquireCtx [''cursor'' \<mapsto> ''abc''] [''id'' \<mapsto> ''7'']) ()
      = (None,
         \<lparr>queries = [''cursor'' \<mapsto> ''abc''], params = [''id'' \<mapsto> ''7''], statusCode = 200,
          contentType = ''application/json'', headers = [''X-Cursor'' \<mapsto> ''cursor123''],
          body = Some (JArr [JObj [(''id'', JNum 1), (''title'', JStr ''a'')]])\<rparr>, ())
   \<and> GetByID sampleDomain \<lparr>Service = okService\<rparr>
        (AcquireCtx [''cursor'' \<mapsto> ''abc''] [''id'' \<mapsto> ''7'']) ()
      = (None,
         \<lparr>queries = [''cursor'' \<mapsto> ''abc''], params = [''id'' \<mapsto> ''7''], statusCode = 200,
          contentType = ''application/json'', headers = Map.empty,
          body = Some (JObj [(''id'', JNum 42), (''title'', JStr ''a'')])\<rparr>, ())
   \<and> Store sampleDomain \<lparr>Service = okService\<rparr>
        (AcquireCtx [''cursor'' \<mapsto> ''abc''] [''id'' \<mapsto> ''7'']) ()
      = (None,
         \<lparr>queries = [''cursor'' \<mapsto> ''abc''], params = [''id'' \<mapsto> ''7''], statusCode = 200,
          contentType = ''application/json'', headers = Map.empty,
          body = Some (JObj [(''id'', JNum 1), (''title'', JStr [])])\<rparr>, ())
   \<and> Delete sampleDomain \<lparr>Service = okService\<rparr>
        (AcquireCtx [''cursor'' \<mapsto> ''abc''] [''id'' \<mapsto> ''7'']) ()
      = (None, AcquireCtx [''cursor'' \<mapsto> ''abc''] [''id'' \<mapsto> ''7''], ())"
  using nil_error_success_response [of sampleDomain
      "AcquireCtx [''cursor'' \<mapsto> ''abc''] [''id'' \<mapsto> ''7'']" "\<lparr>Service = okService\<rparr>" "()"
      "Some [(1, ''a'')]" "''cursor123''" "()" 7 "(42, ''a'')" "()" "(1, [])" "()" "()"]
  by (simp add: Atoi_7 Params_def Query_def AcquireCtx_def okService_def mock_def sampleDomain_def
      Atoi_def intSize_def digit_def int64_def defaultNum_def JSON_def Set_def
      MIMEApplicationJSON_def StatusOK_def removeNewLines_def toValidUTF8_def runeLen_def)

subsection \<open>Store\<close>

lemma Store_calls:
  "calls (Store d \<lparr>Service = spy svc\<rparr> c (s, [])) = [StoreCall (zeroArticle d)]"
  by (simp add: Store_def calls_def spy_def Let_def case_prod_beta ReturnErr_returns_nil)

text \<open>
  C9. \<open>Store\<close> calls the service's \<open>Store\<close> once, with the zero-valued article, and
  when that call returns a nil error, the body of the response is the encoding of
  the article as the service left it.
\<close>

theorem Store_zero_article:
  "calls (Store d \<lparr>Service = spy svc\<rparr> c (s, [])) = [StoreCall (zeroArticle d)]
   \<and> (Service_Store svc (zeroArticle d) s = ((stored, None), s') \<longrightarrow>
        marshalArticle d stored = Inr j \<longrightarrow>
        returned (Store d \<lparr>Service = spy svc\<rparr> c (s, [])) = None
        \<and> body (response (Store d \<lparr>Service = spy svc\<rparr> c (s, []))) = Some j)"
  by (simp add: Store_calls)
     (simp add: Store_def returned_def response_def spy_def Let_def case_prod_beta ReturnErr_nil
        JSON_def)

theorem Store_zero_article_witness:
  "calls (Store sampleDomain \<lparr>Service = spy okService\<rparr> (AcquireCtx Map.empty Map.empty) ((), []))
     = [StoreCall (0, [])]
   \<and> Service_Store okService (zeroArticle sampleDomain) () = (((1, []), None), ())
   \<and> marshalArticle sampleDomain (1, []) = Inr (JObj [(''id'', JNum 1), (''title'', JStr [])])
   \<and> returned (Store sampleDomain \<lparr>Service = spy okService\<rparr> (AcquireCtx Map.empty Map.empty) ((), []))
       = None
   \<and> body (response (Store sampleDomain \<lparr>Service = spy okService\<rparr> (AcquireCtx Map.empty Map.empty) ((), [])))
       = Some (JObj [(''id'', JNum 1), (''title'', JStr [])])"
  using Store_zero_article [of sampleDomain okService "AcquireCtx Map.empty Map.empty" "()"
      "(1, [])" "()" "JObj [(''id'', JNum 1), (''title'', JStr [])]"]
  by (simp add: okService_def mock_def sampleDomain_def toValidUTF8_def)

subsection \<open>Error responses\<close>

lemma Delete_body:
  "Atoi (Params c ''id'') = (idP, None) \<Longrightarrow>
   Service_Delete (Service a) (int64 idP) s = (er, s') \<Longrightarrow>
   response (Delete d a c s) = snd (ReturnErr d c er)"
  by (simp add: Delete_def response_def Let_def case_prod_beta ReturnErr_returns_nil)




text \<open>
  For an error whose text is empty, the body that \<open>ReturnErr\<close> writes is the empty
  object, which has no \<open>message\<close> member; in \<open>Delete\<close>, which writes nothing after
  it, this is the body of the response.
\<close>

lemma ReturnErr_empty_text:
  assumes "Error d e = []"
  shows "body (snd (ReturnErr d c (Some e))) = Some (JObj [])
    \<and> \<not> has_field ''message'' (JObj [])
    \<and> (Atoi (Params c ''id'') = (idP, None) \<longrightarrow>
        Service_Delete (Service a) (int64 idP) s = (Some e, s') \<longrightarrow>
        body (response (Delete d a c s)) = Some (JObj []))"
  using assms by (simp add: Delete_body ReturnErr_non_nil)

text \<open>
  C10 (the code departs from it). The claim speaks of every operation. \<open>ReturnErr\<close>
  does write \<open>{}\<close> for an error with an empty text, but it returns nil, so
  \<open>GetByID\<close>, \<open>Store\<close> and \<open>FetchArticle\<close> go on and replace that body by their
  success encoding: for a service that fails with the empty text in every method,
  the body is the encoding of the zero article after \<open>GetByID\<close> and \<open>Store\<close>, and
  \<open>null\<close> after \<open>FetchArticle\<close>.
\<close>

theorem empty_error_text_overwritten:
  "body (response (GetByID sampleDomain \<lparr>Service = failingService (OtherError [])\<rparr>
      (AcquireCtx Map.empty [''id'' \<mapsto> ''7'']) ()))
     = Some (JObj [(''id'', JNum 0), (''title'', JStr [])])
   \<and> body (response (Store sampleDomain \<lparr>Service = failingService (OtherError [])\<rparr>
      (AcquireCtx Map.empty Map.empty) ()))
     = Some (JObj [(''id'', JNum 0), (''title'', JStr [])])
   \<and> body (response (FetchArticle sampleDomain \<lparr>Service = failingService (OtherError [])\<rparr>
      (AcquireCtx Map.empty Map.empty) ()))
     = Some JNull"
  by (simp add: GetByID_def Store_def FetchArticle_def response_def Params_def Query_def
      AcquireCtx_def Atoi_def intSize_def digit_def failingService_def mock_def ReturnErr_non_nil
      JSON_def Set_def sampleDomain_def toValidUTF8_def)

theorem empty_error_text_overwritten_witness:
  "body (response (GetByID sampleDomain \<lparr>Service = failingService (OtherError [])\<rparr>
      (AcquireCtx Map.empty [''id'' \<mapsto> ''7'']) ())) \<noteq> Some (JObj [])
   \<and> body (response (Store sampleDomain \<lparr>Service = failingService (OtherError [])\<rparr>
      (AcquireCtx Map.empty Map.empty) ())) \<noteq> Some (JObj [])
   \<and> body (response (FetchArticle sampleDomain \<lparr>Service = failingService (OtherError [])\<rparr>
      (AcquireCtx Map.empty Map.empty) ())) \<noteq> Some (JObj [])"
  using empty_error_text_overwritten by simp

text \<open>
  C6, as stated, fails. A request whose \<open>id\<close> does not parse is answered with
  \<open>c.JSON(http.StatusNotFound, ...)\<close>, whose first argument is the data to encode:
  the body is the JSON number 404. And a collaborator error with an empty text is
  answered with \<open>{}\<close>. Neither body has a \<open>message\<close> member.
\<close>

theorem failure_message_field_counterexample:
  "body (response (GetByID sampleDomain \<lparr>Service = okService\<rparr>
      (AcquireCtx Map.empty [''id'' \<mapsto> ''xyz'']) ())) = Some (JNum 404)
   \<and> \<not> has_field ''message'' (JNum 404)
   \<and> body (response (Delete sampleDomain \<lparr>Service = failingService (OtherError [])\<rparr>
      (AcquireCtx Map.empty [''id'' \<mapsto> ''7'']) ())) = Some (JObj [])
   \<and> \<not> has_field ''message'' (JObj [])"
  by (simp add: GetByID_def Delete_def response_def Params_def AcquireCtx_def Atoi_xyz Atoi_7
      JSON_def StatusNotFound_def failingService_def mock_def ReturnErr_non_nil)

text \<open>
  C6, amended. For every error of the collaborator whose text is not empty, the body
  that \<open>ReturnErr\<close> writes is a JSON object with a \<open>message\<close> member; in \<open>Delete\<close>,
  which writes nothing after it, this is the body of the response.
\<close>

theorem collaborator_error_message_field:
  assumes "Error d e \<noteq> []"
  shows "(\<exists>j. body (snd (ReturnErr d c (Some e))) = Some j \<and> has_field ''message'' j)
    \<and> (Atoi (Params c ''id'') = (idP, None) \<longrightarrow>
        Service_Delete (Service a) (int64 idP) s = (Some e, s') \<longrightarrow>
        (\<exists>j. body (response (Delete d a c s)) = Some j \<and> has_field ''message'' j))"
  using assms by (simp add: Delete_body ReturnErr_non_nil)

theorem collaborator_error_message_field_witness:
  "Error sampleDomain ErrNotFound \<noteq> []
   \<and> (\<exists>j. body (snd (ReturnErr sampleDomain (AcquireCtx Map.empty [''id'' \<mapsto> ''7'']) (Some ErrNotFound)))
          = Some j \<and> has_field ''message'' j)
   \<and> Atoi (Params (AcquireCtx Map.empty [''id'' \<mapsto> ''7'']) ''id'') = (7, None)
   \<and> Service_Delete (failingService ErrNotFound) (int64 7) () = (Some ErrNotFound, ())
   \<and> (\<exists>j. body (response (Delete sampleDomain \<lparr>Service = failingService ErrNotFound\<rparr>
        (AcquireCtx Map.empty [''id'' \<mapsto> ''7'']) ())) = Some j \<and> has_field ''message'' j)"
proof -
  have h: "Error sampleDomain ErrNotFound \<noteq> []"
    by (simp add: sampleDomain_def)
  show ?thesis
    using h collaborator_error_message_field [OF h, of "AcquireCtx Map.empty [''id'' \<mapsto> ''7'']" 7
        "\<lparr>Service = failingService ErrNotFound\<rparr>" "()" "()"]
    by (simp add: Params_def AcquireCtx_def Atoi_7 failingService_def mock_def)
qed

subsection \<open>Get by ID and Delete with an id that does not parse\<close>

text \<open>
  When \<open>id\<close> does not parse, neither handler calls the service, and the response is
  what \<open>c.JSON(http.StatusNotFound, domain.ErrNotFound.Error())\<close> makes of it: the
  number 404 as the body and the text of \<open>ErrNotFound\<close> as the Content-Type, the
  status code left as it was.
\<close>

lemma parse_failure_no_call:
  assumes "snd (Atoi (Params c ''id'')) \<noteq> None"
  shows "calls (GetByID d \<lparr>Service = spy svc\<rparr> c (s, [])) = []"
    and "calls (Delete d \<lparr>Service = spy svc\<rparr> c (s, [])) = []"
    and "response (GetByID d a c s') =
           c\<lparr>body := Some (JNum 404), contentType := Error d ErrNotFound\<rparr>"
    and "response (Delete d a c s') =
           c\<lparr>body := Some (JNum 404), contentType := Error d ErrNotFound\<rparr>"
  using assms
  by (simp_all add: GetByID_def Delete_def calls_def response_def Let_def case_prod_beta JSON_def
      StatusNotFound_def)

text \<open>
  C5 (the code departs from it). For the id "xyz" the service is not called, as the
  claim says, but the response is not a not-found response: its status code is
  still 200, its body is the number 404 and its Content-Type is the text of
  \<open>ErrNotFound\<close>.
\<close>

theorem parse_failure_response:
  "GetByID sampleDomain \<lparr>Service = spy okService\<rparr> (AcquireCtx Map.empty [''id'' \<mapsto> ''xyz'']) ((), [])
     = (None,
        \<lparr>queries = Map.empty, params = [''id'' \<mapsto> ''xyz''], statusCode = 200,
         contentType = ''not found'', headers = Map.empty, body = Some (JNum 404)\<rparr>,
        ((), []))
   \<and> Delete sampleDomain \<lparr>Service = spy okService\<rparr> (AcquireCtx Map.empty [''id'' \<mapsto> ''xyz'']) ((), [])
     = (None,
        \<lparr>queries = Map.empty, params = [''id'' \<mapsto> ''xyz''], statusCode = 200,
         contentType = ''not found'', headers = Map.empty, body = Some (JNum 404)\<rparr>,
        ((), []))"
  by (simp add: GetByID_def Delete_def Params_def AcquireCtx_def Atoi_xyz JSON_def
      StatusNotFound_def StatusOK_def sampleDomain_def)

subsection \<open>The status classifier\<close>

text \<open>
  C7. For every non-nil error, \<open>getStatusCode\<close> returns 404 for the not-found error,
  409 for the conflict error, 500 for the internal-server error and 500 for every
  other error, and it has logged exactly that error by then.
\<close>

theorem getStatusCode_classifies:
  "getStatusCode (Some e) lg =
     (if e = ErrNotFound then 404 else if e = ErrConflict then 409 else 500, lg @ [e])"
  by (cases e)
     (simp_all add: getStatusCode_def logrus_Error_def StatusNotFound_def StatusConflict_def
        StatusInternalServerError_def)

end
